theory Spec2Isabelle
  imports Complex_Main "HOL-Library.Sublist"
begin

section \<open>Data model\<close>

text \<open>
  Documents of the three collections (users, books, transactions) of the book exchange
  backend. A collection is the list of its documents in natural order; an ObjectId is a
  natural number. Enumerated string fields stay strings, as they are stored, and the
  schema's \<open>enum\<close> validators are written out where a document is saved. The
  timestamps that Mongoose maintains on transactions (\<open>createdAt\<close>, \<open>updatedAt\<close>)
  are not part of the model.
\<close>

type_synonym oid = nat

text \<open>A request parameter that is used as an ObjectId: either it has the form of one or not.\<close>

datatype idParam = Malformed | ObjectId oid

text \<open>
  The answer of a handler: \<open>res.status(c).json({error: m})\<close> is \<open>Failure c m\<close>, a
  2xx answer with its payload is \<open>Success c payload\<close>.
\<close>

datatype 'a response = Failure nat string | Success nat 'a

fun isSuccess :: "'a response \<Rightarrow> bool" where
  "isSuccess (Success c x) = True"
| "isSuccess (Failure c m) = False"

subsection \<open>models/Book.ts\<close>

record book =
  book_id :: oid
  title :: string
  author :: string
  genre :: string
  description :: "string option"
  condition :: string
  book_location :: string
  book_owner :: oid
  book_status :: string
  book_createdAt :: int

subsection \<open>models/Transaction.ts\<close>

record message =
  sender :: oid
  content :: string
  msg_createdAt :: int
  msg_read :: bool
  notified :: bool

record terms =
  deliveryMethod :: "string option"
  duration :: "int option"
  terms_location :: "string option"
  additionalNotes :: "string option"

record transaction =
  tx_id :: oid
  tx_book :: oid
  requester :: oid
  tx_owner :: oid
  tx_status :: string
  tx_terms :: terms
  messages :: "message list"
  lastModifiedBy :: oid

definition TransactionStatus_enum :: "string list" where
  "TransactionStatus_enum =
     [''pending'', ''accepted'', ''rejected'', ''modified'', ''completed'', ''cancelled'']"

definition deliveryMethod_enum :: "string list" where
  "deliveryMethod_enum = [''in-person'', ''courier'', ''mail'']"

text \<open>
  The validators of \<open>transactionSchema\<close> on \<open>terms\<close>: \<open>deliveryMethod\<close> is required
  and one of the enum, \<open>duration\<close> is required with \<open>min: 1\<close> and \<open>max: 90\<close>.
\<close>

definition validTerms :: "terms \<Rightarrow> bool" where
  "validTerms t =
     ((case deliveryMethod t of None \<Rightarrow> False | Some d \<Rightarrow> d \<in> set deliveryMethod_enum) \<and>
      (case duration t of None \<Rightarrow> False | Some n \<Rightarrow> 1 \<le> n \<and> n \<le> 90))"

text \<open>
  What \<open>transaction.save()\<close> validates: the status enum, the terms, and that every
  message has a content (\<open>required: true\<close> refuses the empty string).
\<close>

definition validTransaction :: "transaction \<Rightarrow> bool" where
  "validTransaction t =
     (tx_status t \<in> set TransactionStatus_enum \<and> validTerms (tx_terms t) \<and>
      list_all (\<lambda>m. content m \<noteq> []) (messages t))"

subsection \<open>models/User.ts\<close>

text \<open>
  \<open>preferences_genres\<close> is \<open>preferences.genres\<close>; \<open>securityAnswers\<close> holds the three
  bcrypt hashes; the two reset fields are absent (\<open>None\<close>) or set.
\<close>

record user =
  user_id :: oid
  email :: string
  password :: string
  name :: string
  bio :: "string option"
  user_location :: "string option"
  profileImage :: "string option"
  preferences_genres :: "string list"
  securityAnswers :: "string list"
  reputation :: int
  user_createdAt :: int
  resetPasswordToken :: "string option"
  resetPasswordExpires :: "int option"

subsection \<open>The store\<close>

record db =
  users :: "user list"
  books :: "book list"
  transactions :: "transaction list"

text \<open>\<open>Model.findById\<close>: the first document of the collection with that id.\<close>

definition findBookById :: "book list \<Rightarrow> oid \<Rightarrow> book option" where
  "findBookById bs i = find (\<lambda>b. book_id b = i) bs"

definition findTransactionById :: "transaction list \<Rightarrow> oid \<Rightarrow> transaction option" where
  "findTransactionById ts i = find (\<lambda>t. tx_id t = i) ts"

definition findUserById :: "user list \<Rightarrow> oid \<Rightarrow> user option" where
  "findUserById us i = find (\<lambda>u. user_id u = i) us"

text \<open>\<open>User.findOne({ email })\<close>: the first user with that email.\<close>

definition findUserByEmail :: "user list \<Rightarrow> string \<Rightarrow> user option" where
  "findUserByEmail us e = find (\<lambda>u. email u = e) us"

text \<open>
  \<open>doc.save()\<close> of a document that was read from the collection: the stored document
  with that id is replaced.
\<close>

fun saveBook :: "book \<Rightarrow> book list \<Rightarrow> book list" where
  "saveBook b [] = []"
| "saveBook b (x # xs) = (if book_id x = book_id b then b # xs else x # saveBook b xs)"

fun saveTransaction :: "transaction \<Rightarrow> transaction list \<Rightarrow> transaction list" where
  "saveTransaction t [] = []"
| "saveTransaction t (x # xs) =
     (if tx_id x = tx_id t then t # xs else x # saveTransaction t xs)"

fun saveUser :: "user \<Rightarrow> user list \<Rightarrow> user list" where
  "saveUser u [] = []"
| "saveUser u (x # xs) = (if user_id x = user_id u then u # xs else x # saveUser u xs)"

text \<open>JavaScript truthiness of an optional string: absent and the empty string are falsy.\<close>

fun truthy :: "string option \<Rightarrow> bool" where
  "truthy None = False"
| "truthy (Some s) = (s \<noteq> [])"

section \<open>controllers/transactionController.ts\<close>

subsection \<open>createExchangeRequest\<close>

text \<open>
  Arguments: the time \<open>now\<close> of \<open>new Date()\<close>, the id \<open>newId\<close> that the new
  document gets, the store, the authenticated caller \<open>userId\<close>, and the body's
  \<open>bookId\<close>, \<open>terms\<close> and \<open>message\<close>. A \<open>bookId\<close> that is no ObjectId makes
  \<open>findById\<close> throw, and a transaction that fails validation makes \<open>save\<close> throw:
  both end in the \<open>catch\<close> block with 500.
\<close>

definition createExchangeRequest ::
  "int \<Rightarrow> oid \<Rightarrow> db \<Rightarrow> oid \<Rightarrow> idParam \<Rightarrow> terms \<Rightarrow> string option \<Rightarrow> transaction response \<times> db" where
  "createExchangeRequest now newId d userId bookId trms msg =
     (case bookId of
        Malformed \<Rightarrow> (Failure 500 ''Failed to create exchange request'', d)
      | ObjectId bid \<Rightarrow>
        (case findBookById (books d) bid of
           None \<Rightarrow> (Failure 404 ''Book not found'', d)
         | Some bk \<Rightarrow>
             if book_status bk \<noteq> ''available''
             then (Failure 400 ''Book is not available for exchange'', d)
             else if book_owner bk = userId
             then (Failure 400 ''Cannot request your own book'', d)
             else
               let t = \<lparr> tx_id = newId, tx_book = bid, requester = userId,
                         tx_owner = book_owner bk, tx_status = ''pending'', tx_terms = trms,
                         messages = (if truthy msg
                                     then [\<lparr> sender = userId, content = the msg,
                                             msg_createdAt = now, msg_read = False,
                                             notified = False \<rparr>]
                                     else []),
                         lastModifiedBy = userId \<rparr>
               in if \<not> validTransaction t
                  then (Failure 500 ''Failed to create exchange request'', d)
                  else
                    let d1 = d\<lparr> transactions := transactions d @ [t] \<rparr>;
                        d2 = d1\<lparr> books := saveBook (bk\<lparr> book_status := ''pending'' \<rparr>) (books d1) \<rparr>
                    in (Success 201 t, d2)))"

subsection \<open>updateExchangeStatus\<close>

text \<open>The table \<open>statusMessages\<close>; a status without an entry gives the empty string.\<close>

definition statusMessages :: "string \<Rightarrow> string" where
  "statusMessages status =
     (if status = ''accepted'' then ''Request accepted''
      else if status = ''rejected'' then ''Request rejected''
      else if status = ''cancelled'' then ''Request withdrawn''
      else [])"

text \<open>
  Lines 117 to 134, \<open>// Add status change message\<close>: one message is pushed when the
  table has a text for the status or the caller sent a message; its content is
  \<open>message || statusMessage\<close>.
\<close>

definition addStatusChangeMessage ::
  "int \<Rightarrow> oid \<Rightarrow> string \<Rightarrow> string option \<Rightarrow> transaction \<Rightarrow> transaction" where
  "addStatusChangeMessage now userId status msg t =
     (let statusMessage = statusMessages status
      in if statusMessage \<noteq> [] \<or> truthy msg
         then t\<lparr> messages := messages t @
                  [\<lparr> sender = userId,
                     content = (if truthy msg then the msg else statusMessage),
                     msg_createdAt = now, msg_read = False, notified = False \<rparr>] \<rparr>
         else t)"

text \<open>
  Lines 136 to 143, \<open>// Update book status\<close>: nothing happens when the book is gone.
\<close>

definition updateBookStatus :: "db \<Rightarrow> oid \<Rightarrow> string \<Rightarrow> db" where
  "updateBookStatus d bookRef status =
     (case findBookById (books d) bookRef of
        None \<Rightarrow> d
      | Some bk \<Rightarrow>
          d\<lparr> books := saveBook
               (bk\<lparr> book_status :=
                     (if status = ''accepted'' then ''pending''
                      else if status = ''rejected'' \<or> status = ''cancelled'' then ''available''
                      else book_status bk) \<rparr>)
               (books d) \<rparr>)"

text \<open>
  The handler in the order of the source: the id check, the lookup, the three
  authorization checks, the assignment of status and \<open>lastModifiedBy\<close>, the status
  message, the book update (saved before the transaction), \<open>transaction.save()\<close> with its
  validation (a failure ends in the \<open>catch\<close> block), and the answer. The current status
  of the transaction is never read. \<open>exchangeId\<close> is the value the handler finds in
  \<open>req.params.exchangeId\<close>, \<open>Malformed\<close> when \<open>Types.ObjectId.isValid\<close> refuses
  it; the request's \<open>status\<close> is a string and its \<open>message\<close> an optional string.
\<close>

definition updateExchangeStatus ::
  "int \<Rightarrow> db \<Rightarrow> oid \<Rightarrow> idParam \<Rightarrow> string \<Rightarrow> string option \<Rightarrow>
     (string \<times> transaction) response \<times> db" where
  "updateExchangeStatus now d userId exchangeId status msg =
     (case exchangeId of
        Malformed \<Rightarrow> (Failure 400 ''Invalid exchange ID'', d)
      | ObjectId eid \<Rightarrow>
        (case findTransactionById (transactions d) eid of
           None \<Rightarrow> (Failure 404 ''Exchange request not found'', d)
         | Some t \<Rightarrow>
             let isOwner = (tx_owner t = userId);
                 isRequester = (requester t = userId)
             in
             if \<not> isOwner \<and> \<not> isRequester
             then (Failure 403 ''Not authorized to update this exchange'', d)
             else if (status = ''accepted'' \<or> status = ''rejected'') \<and> \<not> isOwner
             then (Failure 403 ''Only the owner can accept or reject requests'', d)
             else if status = ''cancelled'' \<and> \<not> isRequester
             then (Failure 403 ''Only the requester can cancel requests'', d)
             else
               let t1 = t\<lparr> tx_status := status, lastModifiedBy := userId \<rparr>;
                   t2 = addStatusChangeMessage now userId status msg t1;
                   d1 = updateBookStatus d (tx_book t) status
               in if \<not> validTransaction t2
                  then (Failure 500 ''Failed to update exchange status'', d1)
                  else
                    let d2 = d1\<lparr> transactions := saveTransaction t2 (transactions d1) \<rparr>
                    in (case findTransactionById (transactions d2) eid of
                          None \<Rightarrow> (Failure 404 ''Exchange request not found after update'', d2)
                        | Some p \<Rightarrow>
                            (Success 200 (''Exchange status updated successfully'', p), d2))))"

section \<open>controllers/authController.ts\<close>

text \<open>
  The libraries are parameters of the handlers: \<open>compare plain hashed\<close> is
  \<open>bcrypt.compare\<close>, \<open>hash plain salt\<close> is \<open>bcrypt.hash\<close> with the salt that
  \<open>bcrypt.genSalt\<close> returned, \<open>sign\<close> is \<open>jwt.sign\<close> of the user id, and
  \<open>sendEmail to otp\<close> tells whether the mail service delivered the password-reset
  mail (it throws otherwise). Request fields are strings, arrays of strings where the
  code expects an array.
\<close>

subsection \<open>login\<close>

record loginBody =
  lb_message :: string
  lb_token :: string
  lb_user :: "oid \<times> string \<times> string"

definition login ::
  "(oid \<Rightarrow> string) \<Rightarrow> (string \<Rightarrow> string \<Rightarrow> bool) \<Rightarrow> db \<Rightarrow> string \<Rightarrow> string \<Rightarrow> loginBody response" where
  "login sign compare d eml pw =
     (case findUserByEmail (users d) eml of
        None \<Rightarrow> Failure 400 ''Invalid credentials''
      | Some usr \<Rightarrow>
          let validPassword = compare pw (password usr)
          in if \<not> validPassword
             then Failure 400 ''Invalid credentials''
             else Success 200 \<lparr> lb_message = ''Login successful!'',
                                lb_token = sign (user_id usr),
                                lb_user = (user_id usr, name usr, email usr) \<rparr>)"

subsection \<open>forgotPassword\<close>

text \<open>\<open>Number.prototype.toString\<close> of a non-negative integer: its decimal digits.\<close>

definition digit :: "nat \<Rightarrow> char" where
  "digit n = ''0123456789'' ! n"

fun toString :: "nat \<Rightarrow> string" where
  "toString n = (if n < 10 then [digit n] else toString (n div 10) @ [digit (n mod 10)])"

declare toString.simps [simp del]

text \<open>
  \<open>random\<close> is the value of \<open>Math.random()\<close>, a number from 0 (inclusive) to 1
  (exclusive), and the arithmetic on it is exact. The third component of the result is the
  mail handed to the mail service, as (recipient, code).
\<close>

definition forgotPassword ::
  "rat \<Rightarrow> int \<Rightarrow> (string \<Rightarrow> string \<Rightarrow> bool) \<Rightarrow> db \<Rightarrow> string \<Rightarrow>
     string response \<times> db \<times> (string \<times> string) option" where
  "forgotPassword random now sendEmail d eml =
     (case findUserByEmail (users d) eml of
        None \<Rightarrow> (Failure 404 ''User not found'', d, None)
      | Some usr \<Rightarrow>
          let otp = toString (nat \<lfloor>100000 + random * 900000\<rfloor>);
              otpExpiry = now + 3600000;
              usr1 = usr\<lparr> resetPasswordToken := Some otp, resetPasswordExpires := Some otpExpiry \<rparr>;
              d1 = d\<lparr> users := saveUser usr1 (users d) \<rparr>
          in if sendEmail eml otp
             then (Success 200 ''OTP sent to email'', d1, Some (eml, otp))
             else
               let usr2 = usr1\<lparr> resetPasswordToken := None, resetPasswordExpires := None \<rparr>;
                   d2 = d1\<lparr> users := saveUser usr2 (users d1) \<rparr>
               in (Failure 500 ''Failed to send OTP email'', d2, Some (eml, otp)))"

subsection \<open>resetPassword\<close>

text \<open>
  The query \<open>{email, resetPasswordToken: otp, resetPasswordExpires: {$gt: Date.now()}}\<close>.
\<close>

definition otpMatches :: "int \<Rightarrow> string \<Rightarrow> string \<Rightarrow> user \<Rightarrow> bool" where
  "otpMatches now eml otp u =
     (email u = eml \<and> resetPasswordToken u = Some otp \<and>
      (case resetPasswordExpires u of None \<Rightarrow> False | Some e \<Rightarrow> e > now))"

definition resetPassword ::
  "(string \<Rightarrow> string \<Rightarrow> string) \<Rightarrow> string \<Rightarrow> int \<Rightarrow> db \<Rightarrow> string \<Rightarrow> string \<Rightarrow> string \<Rightarrow>
     string response \<times> db" where
  "resetPassword hash salt now d eml otp newPassword =
     (case find (otpMatches now eml otp) (users d) of
        None \<Rightarrow> (Failure 400 ''Invalid or expired OTP'', d)
      | Some usr \<Rightarrow>
          let usr1 = usr\<lparr> password := hash newPassword salt,
                          resetPasswordToken := None, resetPasswordExpires := None \<rparr>
          in (Success 200 ''Password reset successful'', d\<lparr> users := saveUser usr1 (users d) \<rparr>))"

subsection \<open>verifySecurityAnswers and resetPasswordWithSecurityAnswers\<close>

text \<open>
  \<open>String.prototype.toLowerCase\<close> and \<open>trim\<close> on the ASCII range: the letters A to Z
  are mapped to a to z, and the white space removed at both ends is space, tab, line feed,
  vertical tab, form feed and carriage return.
\<close>

definition toLowerCase :: "string \<Rightarrow> string" where
  "toLowerCase s =
     map (\<lambda>c. case map_of (zip ''ABCDEFGHIJKLMNOPQRSTUVWXYZ'' ''abcdefghijklmnopqrstuvwxyz'') c of
                 None \<Rightarrow> c | Some l \<Rightarrow> l) s"

definition isWhiteSpace :: "char \<Rightarrow> bool" where
  "isWhiteSpace c = (c \<in> set [CHR '' '', CHR 0x09, CHR 0x0A, CHR 0x0B, CHR 0x0C, CHR 0x0D])"

definition trim :: "string \<Rightarrow> string" where
  "trim s = rev (dropWhile isWhiteSpace (rev (dropWhile isWhiteSpace s)))"

text \<open>
  The callback of \<open>answers.map\<close>: a stored answer that is missing or empty gives
  \<open>false\<close>, otherwise the normalised answer is compared with the stored hash at the
  same index.
\<close>

definition answerMatches :: "(string \<Rightarrow> string \<Rightarrow> bool) \<Rightarrow> user \<Rightarrow> string \<Rightarrow> nat \<Rightarrow> bool" where
  "answerMatches compare usr answer index =
     (if \<not> index < length (securityAnswers usr) \<or> securityAnswers usr ! index = []
      then False
      else compare (trim (toLowerCase answer)) (securityAnswers usr ! index))"

definition answersMatch :: "(string \<Rightarrow> string \<Rightarrow> bool) \<Rightarrow> user \<Rightarrow> string list \<Rightarrow> bool list" where
  "answersMatch compare usr answers =
     map (\<lambda>(answer, index). answerMatches compare usr answer index)
         (zip answers [0..<length answers])"

definition verifySecurityAnswers ::
  "(string \<Rightarrow> string \<Rightarrow> bool) \<Rightarrow> db \<Rightarrow> string \<Rightarrow> string list \<Rightarrow> string response" where
  "verifySecurityAnswers compare d eml answers =
     (if eml = [] \<or> length answers \<noteq> 3
      then Failure 400 ''Email and three security answers are required''
      else case findUserByEmail (users d) eml of
             None \<Rightarrow> Failure 400 ''Invalid email or security answers''
           | Some usr \<Rightarrow>
               if \<not> list_all (\<lambda>match. match) (answersMatch compare usr answers)
               then Failure 400 ''Invalid security answers''
               else Success 200 ''Security answers verified successfully'')"

definition resetPasswordWithSecurityAnswers ::
  "(string \<Rightarrow> string \<Rightarrow> string) \<Rightarrow> string \<Rightarrow> (string \<Rightarrow> string \<Rightarrow> bool) \<Rightarrow> db \<Rightarrow>
     string \<Rightarrow> string list \<Rightarrow> string \<Rightarrow> string response \<times> db" where
  "resetPasswordWithSecurityAnswers hash salt compare d eml answers newPassword =
     (if eml = [] \<or> newPassword = [] \<or> length answers \<noteq> 3
      then (Failure 400 ''Email, security answers, and new password are required'', d)
      else case findUserByEmail (users d) eml of
             None \<Rightarrow> (Failure 400 ''Invalid email or security answers'', d)
           | Some usr \<Rightarrow>
               if \<not> list_all (\<lambda>match. match) (answersMatch compare usr answers)
               then (Failure 400 ''Invalid security answers'', d)
               else
                 let hashedPassword = hash newPassword salt;
                     usr1 = usr\<lparr> password := hashedPassword \<rparr>
                 in (Success 200 ''Password reset successful'',
                     d\<lparr> users := saveUser usr1 (users d) \<rparr>))"

section \<open>controllers/bookController.ts\<close>

subsection \<open>getBooks\<close>














section \<open>An example store\<close>

text \<open>
  The scenario of the specification: user A lists the book Dune, user B requests it by mail
  for five days. \<open>db_listed\<close> is the store before the request, \<open>db_requested\<close> the store
  after it.
\<close>

definition userA :: user where
  "userA = \<lparr> user_id = 1, email = ''a@x.com'', password = ''hash:secretA'', name = ''A'',
             bio = None, user_location = None, profileImage = None,
             preferences_genres = [''Fantasy''],
             securityAnswers = [''hash:rex'', ''hash:pune'', ''hash:blue''],
             reputation = 0, user_createdAt = 0,
             resetPasswordToken = None, resetPasswordExpires = None \<rparr>"

definition userB :: user where
  "userB = \<lparr> user_id = 2, email = ''b@x.com'', password = ''hash:secretB'', name = ''B'',
             bio = None, user_location = None, profileImage = None,
             preferences_genres = [],
             securityAnswers = [''hash:tom'', ''hash:delhi'', ''hash:red''],
             reputation = 0, user_createdAt = 0,
             resetPasswordToken = None, resetPasswordExpires = None \<rparr>"

definition dune :: book where
  "dune = \<lparr> book_id = 10, title = ''Dune'', author = ''Frank Herbert'', genre = ''Sci-Fi'',
            description = None, condition = ''Good'', book_location = ''Mumbai'',
            book_owner = 1, book_status = ''available'', book_createdAt = 100 \<rparr>"

definition mailTerms :: terms where
  "mailTerms = \<lparr> deliveryMethod = Some ''mail'', duration = Some 5,
                 terms_location = None, additionalNotes = None \<rparr>"

definition request1 :: transaction where
  "request1 = \<lparr> tx_id = 20, tx_book = 10, requester = 2, tx_owner = 1,
                tx_status = ''pending'', tx_terms = mailTerms, messages = [],
                lastModifiedBy = 2 \<rparr>"

definition db_listed :: db where
  "db_listed = \<lparr> users = [userA, userB], books = [dune], transactions = [] \<rparr>"

definition db_requested :: db where
  "db_requested = \<lparr> users = [userA, userB],
                    books = [dune\<lparr> book_status := ''pending'' \<rparr>],
                    transactions = [request1] \<rparr>"

text \<open>The same request after the owner rejected it.\<close>

definition db_rejected :: db where
  "db_rejected = \<lparr> users = [userA, userB], books = [dune],
                   transactions = [request1\<lparr> tx_status := ''rejected'', lastModifiedBy := 1 \<rparr>] \<rparr>"

text \<open>
  Stand-ins for the libraries in the examples: a hash is the text \<open>hash:\<close> before the
  plain text, whatever the salt, a token is the text \<open>token\<close>, and the mail service
  is down.
\<close>

definition exampleHash :: "string \<Rightarrow> string \<Rightarrow> string" where
  "exampleHash plain salt = ''hash:'' @ plain"

definition exampleCompare :: "string \<Rightarrow> string \<Rightarrow> bool" where
  "exampleCompare plain hashed = (hashed = ''hash:'' @ plain)"

definition exampleSign :: "oid \<Rightarrow> string" where
  "exampleSign i = ''token''"

definition mailDown :: "string \<Rightarrow> string \<Rightarrow> bool" where
  "mailDown to otp = False"

text \<open>The store in which A holds a reset code from an earlier request, valid until 5000.\<close>

definition db_code_issued :: db where
  "db_code_issued =
     \<lparr> users = [userA\<lparr> resetPasswordToken := Some ''123456'',
                        resetPasswordExpires := Some 5000 \<rparr>, userB],
       books = [dune], transactions = [] \<rparr>"








section \<open>Lookup and save\<close>

lemma findBookById_id: "findBookById bs i = Some b \<Longrightarrow> book_id b = i"
  by (auto simp: findBookById_def find_Some_iff)

lemma findTransactionById_id: "findTransactionById ts i = Some t \<Longrightarrow> tx_id t = i"
  by (auto simp: findTransactionById_def find_Some_iff)

lemma saveBook_same: "findBookById bs i = Some b \<Longrightarrow> saveBook b bs = bs"
proof (induction bs)
  case Nil
  then show ?case by simp
next
  case (Cons x xs)
  have i: "book_id b = i" using Cons.prems by (rule findBookById_id)
  show ?case
  proof (cases "book_id x = i")
    case True
    then have "b = x" using Cons.prems by (simp add: findBookById_def)
    then show ?thesis by simp
  next
    case False
    then have "findBookById xs i = Some b" using Cons.prems by (simp add: findBookById_def)
    then show ?thesis using Cons.IH False i by simp
  qed
qed

lemma findBookById_saveBook:
  "findBookById bs i = Some b \<Longrightarrow> book_id b' = i \<Longrightarrow> findBookById (saveBook b' bs) i = Some b'"
  unfolding findBookById_def
  by (induction bs) (auto split: if_splits)

lemma findTransactionById_saveTransaction:
  "findTransactionById ts i = Some t \<Longrightarrow> tx_id t' = i \<Longrightarrow>
   findTransactionById (saveTransaction t' ts) i = Some t'"
  unfolding findTransactionById_def
  by (induction ts) (auto split: if_splits)

section \<open>Steps of updateExchangeStatus\<close>


lemma validTransaction_addStatusChangeMessage:
  "validTransaction t \<Longrightarrow>
   validTransaction (addStatusChangeMessage now u st m (t\<lparr> tx_status := st, lastModifiedBy := u \<rparr>))
     = (st \<in> set TransactionStatus_enum)"
  by (cases m) (auto simp: validTransaction_def addStatusChangeMessage_def Let_def)

lemma tx_id_addStatusChangeMessage [simp]:
  "tx_id (addStatusChangeMessage now u st m t) = tx_id t"
  by (simp add: addStatusChangeMessage_def Let_def)

lemma tx_status_addStatusChangeMessage [simp]:
  "tx_status (addStatusChangeMessage now u st m t) = tx_status t"
  by (simp add: addStatusChangeMessage_def Let_def)

lemma transactions_updateBookStatus [simp]:
  "transactions (updateBookStatus d b st) = transactions d"
  by (simp add: updateBookStatus_def split: option.splits)

lemma updateBookStatus_other:
  "st \<noteq> ''accepted'' \<Longrightarrow> st \<noteq> ''rejected'' \<Longrightarrow> st \<noteq> ''cancelled'' \<Longrightarrow>
   updateBookStatus d b st = d"
  by (auto simp: updateBookStatus_def saveBook_same split: option.splits)


text \<open>The three 403 answers leave the store as it is.\<close>

lemma updateExchangeStatus_forbidden:
  assumes "findTransactionById (transactions d) eid = Some t"
    and "(tx_owner t \<noteq> u \<and> requester t \<noteq> u) \<or>
         ((st = ''accepted'' \<or> st = ''rejected'') \<and> tx_owner t \<noteq> u) \<or>
         (st = ''cancelled'' \<and> requester t \<noteq> u)"
  shows "\<exists>m. updateExchangeStatus now d u (ObjectId eid) st msg = (Failure 403 m, d)"
  using assms by (auto simp: updateExchangeStatus_def Let_def)

text \<open>A status outside the enum passes the role checks and fails validation on save.\<close>

lemma updateExchangeStatus_invalid_status:
  assumes "findTransactionById (transactions d) eid = Some t"
    and "validTransaction t"
    and "tx_owner t = u \<or> requester t = u"
    and "st \<notin> set TransactionStatus_enum"
  shows "updateExchangeStatus now d u (ObjectId eid) st msg =
           (Failure 500 ''Failed to update exchange status'', d)"
proof -
  have ne: "st \<noteq> ''accepted''" "st \<noteq> ''rejected''" "st \<noteq> ''cancelled''"
    using assms(4) by (auto simp: TransactionStatus_enum_def)
  have inv: "\<not> validTransaction
               (addStatusChangeMessage now u st msg (t\<lparr> tx_status := st, lastModifiedBy := u \<rparr>))"
    using assms(2,4) by (simp add: validTransaction_addStatusChangeMessage)
  show ?thesis
    using assms(1,3) ne inv
    by (auto simp: updateExchangeStatus_def Let_def updateBookStatus_other)
qed

text \<open>Every other call is carried out.\<close>

lemma updateExchangeStatus_applied:
  assumes "findTransactionById (transactions d) eid = Some t"
    and "validTransaction t"
    and "tx_owner t = u \<or> requester t = u"
    and "st = ''accepted'' \<or> st = ''rejected'' \<Longrightarrow> tx_owner t = u"
    and "st = ''cancelled'' \<Longrightarrow> requester t = u"
    and "st \<in> set TransactionStatus_enum"
  shows "updateExchangeStatus now d u (ObjectId eid) st msg =
           (let t2 = addStatusChangeMessage now u st msg (t\<lparr> tx_status := st, lastModifiedBy := u \<rparr>);
                d1 = updateBookStatus d (tx_book t) st
            in (Success 200 (''Exchange status updated successfully'', t2),
                d1\<lparr> transactions := saveTransaction t2 (transactions d) \<rparr>))"
proof -
  let ?t2 = "addStatusChangeMessage now u st msg (t\<lparr> tx_status := st, lastModifiedBy := u \<rparr>)"
  have v: "validTransaction ?t2"
    using assms(2,6) by (simp add: validTransaction_addStatusChangeMessage)
  have i: "tx_id ?t2 = eid"
    using assms(1) by (simp add: findTransactionById_id)
  have f: "findTransactionById (saveTransaction ?t2 (transactions d)) eid = Some ?t2"
    using assms(1) i by (rule findTransactionById_saveTransaction)
  show ?thesis
    using assms(1,3,4,5) v f
    by (auto simp: updateExchangeStatus_def Let_def)
qed

lemma updateBookStatus_missing:
  "findBookById (books d) b = None \<Longrightarrow> updateBookStatus d b st = d"
  by (simp add: updateBookStatus_def)

lemma updateBookStatus_present:
  assumes "findBookById (books d) b = Some bk"
  shows "findBookById (books (updateBookStatus d b st)) b =
           Some (bk\<lparr> book_status :=
                      (if st = ''accepted'' then ''pending''
                       else if st = ''rejected'' \<or> st = ''cancelled'' then ''available''
                       else book_status bk) \<rparr>)"
proof -
  have "book_id bk = b" using assms by (rule findBookById_id)
  then show ?thesis
    using assms by (simp add: updateBookStatus_def findBookById_saveBook)
qed

text \<open>When the handler answers with success, for a stored valid transaction.\<close>

lemma updateExchangeStatus_isSuccess:
  assumes "findTransactionById (transactions d) eid = Some t"
    and "validTransaction t"
  shows "isSuccess (fst (updateExchangeStatus now d u (ObjectId eid) st msg)) =
           ((tx_owner t = u \<or> requester t = u) \<and>
            (st = ''accepted'' \<or> st = ''rejected'' \<longrightarrow> tx_owner t = u) \<and>
            (st = ''cancelled'' \<longrightarrow> requester t = u) \<and>
            st \<in> set TransactionStatus_enum)"
proof (cases "(tx_owner t \<noteq> u \<and> requester t \<noteq> u) \<or>
              ((st = ''accepted'' \<or> st = ''rejected'') \<and> tx_owner t \<noteq> u) \<or>
              (st = ''cancelled'' \<and> requester t \<noteq> u)")
  case True
  from updateExchangeStatus_forbidden [OF assms(1) True, of now msg]
  obtain m where "updateExchangeStatus now d u (ObjectId eid) st msg = (Failure 403 m, d)" ..
  then show ?thesis using True by auto
next
  case False
  then have ok: "tx_owner t = u \<or> requester t = u"
    "st = ''accepted'' \<or> st = ''rejected'' \<Longrightarrow> tx_owner t = u"
    "st = ''cancelled'' \<Longrightarrow> requester t = u"
    by auto
  show ?thesis
  proof (cases "st \<in> set TransactionStatus_enum")
    case True
    from updateExchangeStatus_applied [OF assms ok True, of now msg]
    show ?thesis using ok True by (auto simp: Let_def)
  next
    case False
    from updateExchangeStatus_invalid_status [OF assms ok(1) False, of now msg]
    show ?thesis using False by simp
  qed
qed

text \<open>Every answer that is not a success leaves the store as it is.\<close>

lemma updateExchangeStatus_failure_unchanged:
  assumes "findTransactionById (transactions d) eid = Some t"
    and "validTransaction t"
    and "\<not> isSuccess (fst (updateExchangeStatus now d u (ObjectId eid) st msg))"
  shows "snd (updateExchangeStatus now d u (ObjectId eid) st msg) = d"
proof (cases "(tx_owner t \<noteq> u \<and> requester t \<noteq> u) \<or>
              ((st = ''accepted'' \<or> st = ''rejected'') \<and> tx_owner t \<noteq> u) \<or>
              (st = ''cancelled'' \<and> requester t \<noteq> u)")
  case True
  from updateExchangeStatus_forbidden [OF assms(1) True, of now msg]
  show ?thesis by auto
next
  case False
  then have ok: "tx_owner t = u \<or> requester t = u"
    "st = ''accepted'' \<or> st = ''rejected'' \<Longrightarrow> tx_owner t = u"
    "st = ''cancelled'' \<Longrightarrow> requester t = u"
    by auto
  have "st \<notin> set TransactionStatus_enum"
    using assms(3) updateExchangeStatus_isSuccess [OF assms(1,2), of now u st msg] ok by auto
  from updateExchangeStatus_invalid_status [OF assms(1,2) ok(1) this, of now msg]
  show ?thesis by simp
qed

text \<open>The stored transaction after a success.\<close>

lemma updateExchangeStatus_stored:
  assumes "findTransactionById (transactions d) eid = Some t"
    and "validTransaction t"
    and "isSuccess (fst (updateExchangeStatus now d u (ObjectId eid) st msg))"
  shows "findTransactionById (transactions (snd (updateExchangeStatus now d u (ObjectId eid) st msg))) eid
           = Some (addStatusChangeMessage now u st msg (t\<lparr> tx_status := st, lastModifiedBy := u \<rparr>))"
    and "books (snd (updateExchangeStatus now d u (ObjectId eid) st msg))
           = books (updateBookStatus d (tx_book t) st)"
proof -
  let ?t2 = "addStatusChangeMessage now u st msg (t\<lparr> tx_status := st, lastModifiedBy := u \<rparr>)"
  have c: "tx_owner t = u \<or> requester t = u"
    "st = ''accepted'' \<or> st = ''rejected'' \<Longrightarrow> tx_owner t = u"
    "st = ''cancelled'' \<Longrightarrow> requester t = u"
    "st \<in> set TransactionStatus_enum"
    using assms(3) updateExchangeStatus_isSuccess [OF assms(1,2), of now u st msg] by auto
  have i: "tx_id ?t2 = eid"
    using assms(1) by (simp add: findTransactionById_id)
  have f: "findTransactionById (saveTransaction ?t2 (transactions d)) eid = Some ?t2"
    using assms(1) i by (rule findTransactionById_saveTransaction)
  from updateExchangeStatus_applied [OF assms(1,2) c, of now msg] f
  show "findTransactionById (transactions (snd (updateExchangeStatus now d u (ObjectId eid) st msg))) eid
           = Some ?t2"
    by (simp add: Let_def)
  from updateExchangeStatus_applied [OF assms(1,2) c, of now msg]
  show "books (snd (updateExchangeStatus now d u (ObjectId eid) st msg))
           = books (updateBookStatus d (tx_book t) st)"
    by (simp add: Let_def)
qed

section \<open>Evaluation of the example store\<close>

lemmas example_defs =
  db_listed_def db_requested_def db_rejected_def userA_def userB_def dune_def mailTerms_def
  request1_def

lemmas transaction_defs =
  updateExchangeStatus_def createExchangeRequest_def findTransactionById_def findBookById_def
  validTransaction_def validTerms_def TransactionStatus_enum_def deliveryMethod_enum_def
  addStatusChangeMessage_def statusMessages_def updateBookStatus_def Let_def

lemma request1_found: "findTransactionById (transactions db_requested) 20 = Some request1"
  by (simp add: example_defs findTransactionById_def)

lemma request1_valid: "validTransaction request1"
  by (simp add: example_defs validTransaction_def validTerms_def TransactionStatus_enum_def
      deliveryMethod_enum_def)

lemma request1_pending: "tx_status request1 = ''pending''"
  by (simp add: request1_def)

section \<open>Claims on the exchange state machine\<close>

text \<open>
  C1, as stated, fails: a participant who asks for a status without a role rule is not
  refused. On the pending request of the example, the requester B asks for
  \<open>completed\<close>: the call succeeds and the stored status is \<open>completed\<close>.
\<close>

theorem updateExchangeStatus_other_pair_counterexample:
  "tx_status request1 = ''pending'' \<and> requester request1 = 2 \<and>
   findTransactionById (transactions db_requested) 20 = Some request1 \<and>
   fst (updateExchangeStatus 7 db_requested 2 (ObjectId 20) ''completed'' None) =
     Success 200 (''Exchange status updated successfully'',
                  request1\<lparr> tx_status := ''completed'' \<rparr>) \<and>
   map tx_status (transactions (snd (updateExchangeStatus 7 db_requested 2 (ObjectId 20)
                                      ''completed'' None))) = [''completed'']"
  by (simp add: example_defs transaction_defs)

text \<open>
  C1, amended. For a stored pending transaction and a caller who is its owner or its
  requester: a successful move to \<open>accepted\<close> or \<open>rejected\<close> is made by the owner
  only, one to \<open>cancelled\<close> by the requester only; asking for \<open>accepted\<close> or
  \<open>rejected\<close> without being the owner, or for \<open>cancelled\<close> without being the
  requester, is answered with 403 and the store is unchanged; a status outside the six
  values of the schema is answered with 500 and the store is unchanged; every other call
  (the owner's accept or reject, the requester's cancel, and \<open>pending\<close>, \<open>modified\<close>
  or \<open>completed\<close> from either participant) succeeds and stores the requested status.
\<close>

theorem updateExchangeStatus_pending_roles:
  assumes found: "findTransactionById (transactions d) eid = Some t"
    and valid: "validTransaction t"
    and pending: "tx_status t = ''pending''"
    and participant: "tx_owner t = u \<or> requester t = u"
    and res: "updateExchangeStatus now d u (ObjectId eid) st msg = (r, d')"
  shows "(isSuccess r \<and> (st = ''accepted'' \<or> st = ''rejected'') \<longrightarrow> tx_owner t = u) \<and>
         (isSuccess r \<and> st = ''cancelled'' \<longrightarrow> requester t = u) \<and>
         (((st = ''accepted'' \<or> st = ''rejected'') \<and> tx_owner t \<noteq> u) \<or>
          (st = ''cancelled'' \<and> requester t \<noteq> u)
            \<longrightarrow> (\<exists>m. r = Failure 403 m) \<and> d' = d) \<and>
         (st \<notin> set TransactionStatus_enum
            \<longrightarrow> r = Failure 500 ''Failed to update exchange status'' \<and> d' = d) \<and>
         (((st = ''accepted'' \<or> st = ''rejected'') \<and> tx_owner t = u) \<or>
          (st = ''cancelled'' \<and> requester t = u) \<or>
          st = ''pending'' \<or> st = ''modified'' \<or> st = ''completed''
            \<longrightarrow> isSuccess r \<and>
                map_option tx_status (findTransactionById (transactions d') eid) = Some st)"
proof -
  have r: "r = fst (updateExchangeStatus now d u (ObjectId eid) st msg)"
    and d': "d' = snd (updateExchangeStatus now d u (ObjectId eid) st msg)"
    using res by simp_all
  note iff = updateExchangeStatus_isSuccess [OF found valid, of now u st msg, folded r]
  have a: "isSuccess r \<and> (st = ''accepted'' \<or> st = ''rejected'') \<longrightarrow> tx_owner t = u"
    using iff by blast
  have b: "isSuccess r \<and> st = ''cancelled'' \<longrightarrow> requester t = u"
    using iff by blast
  have c: "((st = ''accepted'' \<or> st = ''rejected'') \<and> tx_owner t \<noteq> u) \<or>
           (st = ''cancelled'' \<and> requester t \<noteq> u)
             \<longrightarrow> (\<exists>m. r = Failure 403 m) \<and> d' = d"
  proof
    assume h: "((st = ''accepted'' \<or> st = ''rejected'') \<and> tx_owner t \<noteq> u) \<or>
               (st = ''cancelled'' \<and> requester t \<noteq> u)"
    then have "(tx_owner t \<noteq> u \<and> requester t \<noteq> u) \<or>
               ((st = ''accepted'' \<or> st = ''rejected'') \<and> tx_owner t \<noteq> u) \<or>
               (st = ''cancelled'' \<and> requester t \<noteq> u)"
      by blast
    from updateExchangeStatus_forbidden [OF found this, of now msg] res
    show "(\<exists>m. r = Failure 403 m) \<and> d' = d" by auto
  qed
  have e: "st \<notin> set TransactionStatus_enum
             \<longrightarrow> r = Failure 500 ''Failed to update exchange status'' \<and> d' = d"
    using updateExchangeStatus_invalid_status [OF found valid participant, of st now msg] res
    by auto
  have f: "((st = ''accepted'' \<or> st = ''rejected'') \<and> tx_owner t = u) \<or>
           (st = ''cancelled'' \<and> requester t = u) \<or>
           st = ''pending'' \<or> st = ''modified'' \<or> st = ''completed''
             \<longrightarrow> isSuccess r \<and>
                 map_option tx_status (findTransactionById (transactions d') eid) = Some st"
  proof
    assume h: "((st = ''accepted'' \<or> st = ''rejected'') \<and> tx_owner t = u) \<or>
               (st = ''cancelled'' \<and> requester t = u) \<or>
               st = ''pending'' \<or> st = ''modified'' \<or> st = ''completed''"
    then have enum: "st \<in> set TransactionStatus_enum"
      by (auto simp: TransactionStatus_enum_def)
    have s: "isSuccess r"
      using iff h enum participant by auto
    then have s': "isSuccess (fst (updateExchangeStatus now d u (ObjectId eid) st msg))"
      by (simp add: r)
    show "isSuccess r \<and>
          map_option tx_status (findTransactionById (transactions d') eid) = Some st"
      using s updateExchangeStatus_stored(1) [OF found valid s'] by (simp add: d')
  qed
  from a b c e f show ?thesis by blast
qed

theorem updateExchangeStatus_pending_roles_witness:
  "(\<exists>m. fst (updateExchangeStatus 7 db_requested 2 (ObjectId 20) ''accepted'' None)
          = Failure 403 m) \<and>
   snd (updateExchangeStatus 7 db_requested 2 (ObjectId 20) ''accepted'' None) = db_requested"
proof -
  have participant: "tx_owner request1 = 2 \<or> requester request1 = 2"
    by (simp add: request1_def)
  have owner: "tx_owner request1 \<noteq> 2"
    by (simp add: request1_def)
  from updateExchangeStatus_pending_roles
         [OF request1_found request1_valid request1_pending participant surjective_pairing,
          of 7 "''accepted''" None] owner
  show ?thesis by simp
qed

text \<open>
  C2, as stated, fails: no status is terminal for the handler. On the rejected request of
  the example the owner A asks for \<open>accepted\<close>: the call succeeds and the stored status
  is \<open>accepted\<close>.
\<close>

theorem updateExchangeStatus_terminal_counterexample:
  "map tx_status (transactions db_rejected) = [''rejected''] \<and>
   isSuccess (fst (updateExchangeStatus 7 db_rejected 1 (ObjectId 20) ''accepted'' None)) \<and>
   map tx_status (transactions (snd (updateExchangeStatus 7 db_rejected 1 (ObjectId 20)
                                      ''accepted'' None))) = [''accepted'']"
  by (simp add: example_defs transaction_defs)

text \<open>
  C2, amended. The handler does not read the current status: for a stored transaction in
  any status, \<open>rejected\<close>, \<open>cancelled\<close> and \<open>completed\<close> included, a call succeeds
  exactly when the caller is the owner or the requester, the role rule of the requested
  status holds, and the requested status is one of the six values of the schema; a
  successful call stores the requested status, and a failing call leaves the store
  unchanged. So each of the six statuses is reachable in one step from \<open>pending\<close> and
  from every other status.
\<close>

theorem updateExchangeStatus_any_current_status:
  assumes found: "findTransactionById (transactions d) eid = Some t"
    and valid: "validTransaction t"
    and res: "updateExchangeStatus now d u (ObjectId eid) st msg = (r, d')"
  shows "(isSuccess r \<longleftrightarrow>
            (tx_owner t = u \<or> requester t = u) \<and>
            (st = ''accepted'' \<or> st = ''rejected'' \<longrightarrow> tx_owner t = u) \<and>
            (st = ''cancelled'' \<longrightarrow> requester t = u) \<and>
            st \<in> set TransactionStatus_enum) \<and>
         (isSuccess r \<longrightarrow>
            map_option tx_status (findTransactionById (transactions d') eid) = Some st) \<and>
         (\<not> isSuccess r \<longrightarrow> d' = d)"
proof -
  have r: "r = fst (updateExchangeStatus now d u (ObjectId eid) st msg)"
    and d': "d' = snd (updateExchangeStatus now d u (ObjectId eid) st msg)"
    using res by simp_all
  have a: "isSuccess r \<longleftrightarrow>
            (tx_owner t = u \<or> requester t = u) \<and>
            (st = ''accepted'' \<or> st = ''rejected'' \<longrightarrow> tx_owner t = u) \<and>
            (st = ''cancelled'' \<longrightarrow> requester t = u) \<and>
            st \<in> set TransactionStatus_enum"
    unfolding r by (rule updateExchangeStatus_isSuccess [OF found valid])
  have b: "isSuccess r \<longrightarrow>
            map_option tx_status (findTransactionById (transactions d') eid) = Some st"
    unfolding r d' using updateExchangeStatus_stored(1) [OF found valid, of now u st msg]
    by simp
  have c: "\<not> isSuccess r \<longrightarrow> d' = d"
    unfolding r d' using updateExchangeStatus_failure_unchanged [OF found valid, of now u st msg]
    by simp
  from a b c show ?thesis by blast
qed

theorem updateExchangeStatus_any_current_status_witness:
  "isSuccess (fst (updateExchangeStatus 7 db_rejected 2 (ObjectId 20) ''cancelled'' None)) \<and>
   map_option tx_status
     (findTransactionById
        (transactions (snd (updateExchangeStatus 7 db_rejected 2 (ObjectId 20) ''cancelled'' None)))
        20) = Some ''cancelled''"
proof -
  let ?t = "request1\<lparr> tx_status := ''rejected'', lastModifiedBy := 1 \<rparr>"
  have found: "findTransactionById (transactions db_rejected) 20 = Some ?t"
    by (simp add: example_defs findTransactionById_def)
  have valid: "validTransaction ?t"
    by (simp add: example_defs validTransaction_def validTerms_def TransactionStatus_enum_def
        deliveryMethod_enum_def)
  have who: "tx_owner ?t = 1" "requester ?t = 2"
    by (simp_all add: request1_def)
  have enum: "''cancelled'' \<in> set TransactionStatus_enum"
    by (simp add: TransactionStatus_enum_def)
  from updateExchangeStatus_any_current_status
         [OF found valid surjective_pairing, of 7 2 "''cancelled''" None] who enum
  show ?thesis by simp
qed

text \<open>
  C4. For a stored pending transaction, a successful update to \<open>rejected\<close> or
  \<open>cancelled\<close> leaves the referenced book with status \<open>available\<close>, and a successful
  update to \<open>accepted\<close> leaves it with status \<open>pending\<close>; when the referenced book
  is not in the store, an update that passes the checks still succeeds, stores the
  requested status, and the books are untouched.
\<close>

theorem updateExchangeStatus_book_status:
  assumes found: "findTransactionById (transactions d) eid = Some t"
    and valid: "validTransaction t"
    and pending: "tx_status t = ''pending''"
    and res: "updateExchangeStatus now d u (ObjectId eid) st msg = (r, d')"
  shows "(\<forall>bk. isSuccess r \<and> findBookById (books d) (tx_book t) = Some bk \<and>
               (st = ''rejected'' \<or> st = ''cancelled'')
            \<longrightarrow> findBookById (books d') (tx_book t) = Some (bk\<lparr> book_status := ''available'' \<rparr>)) \<and>
         (\<forall>bk. isSuccess r \<and> findBookById (books d) (tx_book t) = Some bk \<and> st = ''accepted''
            \<longrightarrow> findBookById (books d') (tx_book t) = Some (bk\<lparr> book_status := ''pending'' \<rparr>)) \<and>
         (findBookById (books d) (tx_book t) = None \<and>
          (tx_owner t = u \<or> requester t = u) \<and>
          (st = ''accepted'' \<or> st = ''rejected'' \<longrightarrow> tx_owner t = u) \<and>
          (st = ''cancelled'' \<longrightarrow> requester t = u) \<and>
          st \<in> set TransactionStatus_enum
            \<longrightarrow> isSuccess r \<and> books d' = books d \<and>
                map_option tx_status (findTransactionById (transactions d') eid) = Some st)"
proof -
  have r: "r = fst (updateExchangeStatus now d u (ObjectId eid) st msg)"
    and d': "d' = snd (updateExchangeStatus now d u (ObjectId eid) st msg)"
    using res by simp_all
  have bks: "isSuccess r \<Longrightarrow> books d' = books (updateBookStatus d (tx_book t) st)"
    unfolding r d' by (rule updateExchangeStatus_stored(2) [OF found valid])
  have stored: "isSuccess r \<Longrightarrow>
                map_option tx_status (findTransactionById (transactions d') eid) = Some st"
    unfolding r d' using updateExchangeStatus_stored(1) [OF found valid, of now u st msg]
    by simp
  have a: "\<forall>bk. isSuccess r \<and> findBookById (books d) (tx_book t) = Some bk \<and>
               (st = ''rejected'' \<or> st = ''cancelled'')
            \<longrightarrow> findBookById (books d') (tx_book t) = Some (bk\<lparr> book_status := ''available'' \<rparr>)"
    using bks updateBookStatus_present [of d "tx_book t" _ st] by auto
  have b: "\<forall>bk. isSuccess r \<and> findBookById (books d) (tx_book t) = Some bk \<and> st = ''accepted''
            \<longrightarrow> findBookById (books d') (tx_book t) = Some (bk\<lparr> book_status := ''pending'' \<rparr>)"
    using bks updateBookStatus_present [of d "tx_book t" _ st] by auto
  have c: "findBookById (books d) (tx_book t) = None \<and>
          (tx_owner t = u \<or> requester t = u) \<and>
          (st = ''accepted'' \<or> st = ''rejected'' \<longrightarrow> tx_owner t = u) \<and>
          (st = ''cancelled'' \<longrightarrow> requester t = u) \<and>
          st \<in> set TransactionStatus_enum
            \<longrightarrow> isSuccess r \<and> books d' = books d \<and>
                map_option tx_status (findTransactionById (transactions d') eid) = Some st"
  proof
    assume h: "findBookById (books d) (tx_book t) = None \<and>
          (tx_owner t = u \<or> requester t = u) \<and>
          (st = ''accepted'' \<or> st = ''rejected'' \<longrightarrow> tx_owner t = u) \<and>
          (st = ''cancelled'' \<longrightarrow> requester t = u) \<and>
          st \<in> set TransactionStatus_enum"
    then have s: "isSuccess r"
      unfolding r using updateExchangeStatus_isSuccess [OF found valid, of now u st msg] by blast
    have "books d' = books d"
      using bks [OF s] h by (simp add: updateBookStatus_missing)
    then show "isSuccess r \<and> books d' = books d \<and>
               map_option tx_status (findTransactionById (transactions d') eid) = Some st"
      using s stored by simp
  qed
  from a b c show ?thesis by blast
qed

theorem updateExchangeStatus_book_status_witness:
  "findBookById
     (books (snd (updateExchangeStatus 7 db_requested 2 (ObjectId 20) ''cancelled'' None))) 10
     = Some dune \<and>
   findBookById
     (books (snd (updateExchangeStatus 7 db_requested 1 (ObjectId 20) ''accepted'' None))) 10
     = Some (dune\<lparr> book_status := ''pending'' \<rparr>) \<and>
   isSuccess (fst (updateExchangeStatus 7 (db_requested\<lparr> books := [] \<rparr>) 1 (ObjectId 20)
                     ''rejected'' None)) \<and>
   books (snd (updateExchangeStatus 7 (db_requested\<lparr> books := [] \<rparr>) 1 (ObjectId 20)
                 ''rejected'' None)) = []"
proof -
  have book: "findBookById (books db_requested) (tx_book request1)
                = Some (dune\<lparr> book_status := ''pending'' \<rparr>)"
    by (simp add: example_defs findBookById_def)
  have s1: "isSuccess (fst (updateExchangeStatus 7 db_requested 2 (ObjectId 20) ''cancelled'' None))"
    by (simp add: example_defs transaction_defs)
  have s2: "isSuccess (fst (updateExchangeStatus 7 db_requested 1 (ObjectId 20) ''accepted'' None))"
    by (simp add: example_defs transaction_defs)
  have b10: "tx_book request1 = 10" by (simp add: request1_def)
  have restore: "dune\<lparr> book_status := ''pending'', book_status := ''available'' \<rparr> = dune"
    by (simp add: dune_def)
  have found': "findTransactionById (transactions (db_requested\<lparr> books := [] \<rparr>)) 20 = Some request1"
    by (simp add: example_defs findTransactionById_def)
  have gone: "findBookById (books (db_requested\<lparr> books := [] \<rparr>)) (tx_book request1) = None"
    by (simp add: findBookById_def)
  have who: "tx_owner request1 = 1" by (simp add: request1_def)
  have enum: "''rejected'' \<in> set TransactionStatus_enum"
    by (simp add: TransactionStatus_enum_def)
  from updateExchangeStatus_book_status
         [OF request1_found request1_valid request1_pending surjective_pairing,
          of 7 2 "''cancelled''" None] book s1 b10 restore
  have c1: "findBookById
     (books (snd (updateExchangeStatus 7 db_requested 2 (ObjectId 20) ''cancelled'' None))) 10
     = Some dune"
    by simp
  from updateExchangeStatus_book_status
         [OF request1_found request1_valid request1_pending surjective_pairing,
          of 7 1 "''accepted''" None] book s2 b10
  have c2: "findBookById
     (books (snd (updateExchangeStatus 7 db_requested 1 (ObjectId 20) ''accepted'' None))) 10
     = Some (dune\<lparr> book_status := ''pending'' \<rparr>)"
    by simp
  from updateExchangeStatus_book_status
         [OF found' request1_valid request1_pending surjective_pairing,
          of 7 1 "''rejected''" None] gone who enum
  have c3: "isSuccess (fst (updateExchangeStatus 7 (db_requested\<lparr> books := [] \<rparr>) 1 (ObjectId 20)
                     ''rejected'' None)) \<and>
   books (snd (updateExchangeStatus 7 (db_requested\<lparr> books := [] \<rparr>) 1 (ObjectId 20)
                 ''rejected'' None)) = []"
    by simp
  from c1 c2 c3 show ?thesis by blast
qed

text \<open>
  C5, as stated, fails where the caller sends a message: the content is the caller's
  text alone, not a concatenation with the fixed text. The owner A accepts the request of
  the example with the message \<open>See you\<close>.
\<close>

theorem updateExchangeStatus_message_counterexample:
  "isSuccess (fst (updateExchangeStatus 7 db_requested 1 (ObjectId 20) ''accepted''
                     (Some ''See you''))) \<and>
   map messages (transactions (snd (updateExchangeStatus 7 db_requested 1 (ObjectId 20)
                                      ''accepted'' (Some ''See you'')))) =
     [[\<lparr> sender = 1, content = ''See you'', msg_createdAt = 7, msg_read = False,
         notified = False \<rparr>]] \<and>
   ''See you'' \<noteq> statusMessages ''accepted'' @ ''See you'' \<and>
   ''See you'' \<noteq> ''See you'' @ statusMessages ''accepted''"
  by (simp add: example_defs transaction_defs)

text \<open>
  C5, amended. Every successful update to \<open>accepted\<close>, \<open>rejected\<close> or \<open>cancelled\<close>
  appends exactly one message to the stored transaction, sent by the acting user, unread
  and not notified: its content is the caller's message when a non-empty one is supplied,
  and otherwise the fixed text \<open>Request accepted\<close>, \<open>Request rejected\<close> or
  \<open>Request withdrawn\<close>.
\<close>

theorem updateExchangeStatus_status_message:
  assumes found: "findTransactionById (transactions d) eid = Some t"
    and valid: "validTransaction t"
    and res: "updateExchangeStatus now d u (ObjectId eid) st msg = (r, d')"
    and success: "isSuccess r"
    and status: "st = ''accepted'' \<or> st = ''rejected'' \<or> st = ''cancelled''"
  shows "\<exists>t'. findTransactionById (transactions d') eid = Some t' \<and>
              messages t' = messages t @
                [\<lparr> sender = u,
                   content = (if truthy msg then the msg
                              else if st = ''accepted'' then ''Request accepted''
                              else if st = ''rejected'' then ''Request rejected''
                              else ''Request withdrawn''),
                   msg_createdAt = now, msg_read = False, notified = False \<rparr>]"
proof -
  let ?t2 = "addStatusChangeMessage now u st msg (t\<lparr> tx_status := st, lastModifiedBy := u \<rparr>)"
  have r: "r = fst (updateExchangeStatus now d u (ObjectId eid) st msg)"
    and d': "d' = snd (updateExchangeStatus now d u (ObjectId eid) st msg)"
    using res by simp_all
  have stored: "findTransactionById (transactions d') eid = Some ?t2"
    unfolding d' using success unfolding r
    by (rule updateExchangeStatus_stored(1) [OF found valid])
  have "messages ?t2 = messages t @
                [\<lparr> sender = u,
                   content = (if truthy msg then the msg
                              else if st = ''accepted'' then ''Request accepted''
                              else if st = ''rejected'' then ''Request rejected''
                              else ''Request withdrawn''),
                   msg_createdAt = now, msg_read = False, notified = False \<rparr>]"
    using status by (auto simp: addStatusChangeMessage_def statusMessages_def Let_def)
  with stored show ?thesis by blast
qed

theorem updateExchangeStatus_status_message_witness:
  "\<exists>t'. findTransactionById
          (transactions (snd (updateExchangeStatus 7 db_requested 2 (ObjectId 20) ''cancelled'' None)))
          20 = Some t' \<and>
        messages t' =
          [\<lparr> sender = 2, content = ''Request withdrawn'', msg_createdAt = 7, msg_read = False,
             notified = False \<rparr>]"
proof -
  have s: "isSuccess (fst (updateExchangeStatus 7 db_requested 2 (ObjectId 20) ''cancelled'' None))"
    by (simp add: example_defs transaction_defs)
  have st: "''cancelled'' = ''accepted'' \<or> ''cancelled'' = ''rejected'' \<or> ''cancelled'' = ''cancelled''"
    by simp
  have m: "messages request1 = []" by (simp add: request1_def)
  from updateExchangeStatus_status_message
         [OF request1_found request1_valid surjective_pairing s st] m
  show ?thesis by simp
qed

section \<open>Claims on createExchangeRequest\<close>

text \<open>
  C3, as stated, fails in the direction from the three conditions to success: the book of
  the example is there, available and owned by A, the caller is B, and the request with a
  duration of 0 days fails the schema's validation; nothing is stored.
\<close>

theorem createExchangeRequest_terms_counterexample:
  "findBookById (books db_listed) 10 = Some dune \<and> book_status dune = ''available'' \<and>
   book_owner dune \<noteq> 2 \<and>
   createExchangeRequest 7 20 db_listed 2 (ObjectId 10) (mailTerms\<lparr> duration := Some 0 \<rparr>) None
     = (Failure 500 ''Failed to create exchange request'', db_listed)"
  by (simp add: example_defs transaction_defs)

text \<open>
  C3, amended. The request succeeds if and only if the referenced book exists, its status
  is \<open>available\<close>, the caller is not the book's owner, and the terms pass the schema's
  validation (a delivery method out of in-person, courier and mail, and a duration from 1
  to 90). On success one transaction is added, with status \<open>pending\<close>, the caller as
  requester, and the caller's opening message as its only message when a non-empty one is
  supplied (no message otherwise), and the stored book has status \<open>pending\<close>; on every
  failure the store is unchanged.
\<close>

theorem createExchangeRequest_succeeds_iff:
  assumes res: "createExchangeRequest now newId d u bookId trms msg = (r, d')"
  shows "(isSuccess r \<longleftrightarrow>
            (\<exists>bid bk. bookId = ObjectId bid \<and> findBookById (books d) bid = Some bk \<and>
                      book_status bk = ''available'' \<and> book_owner bk \<noteq> u) \<and>
            validTerms trms) \<and>
         (\<not> isSuccess r \<longrightarrow> d' = d) \<and>
         (\<forall>bid bk. isSuccess r \<and> bookId = ObjectId bid \<and> findBookById (books d) bid = Some bk
            \<longrightarrow> (\<exists>t. r = Success 201 t \<and> transactions d' = transactions d @ [t] \<and>
                     tx_status t = ''pending'' \<and> tx_book t = bid \<and> requester t = u \<and>
                     tx_owner t = book_owner bk \<and> tx_terms t = trms \<and>
                     messages t =
                       (if truthy msg
                        then [\<lparr> sender = u, content = the msg, msg_createdAt = now,
                                msg_read = False, notified = False \<rparr>]
                        else []) \<and>
                     findBookById (books d') bid = Some (bk\<lparr> book_status := ''pending'' \<rparr>) \<and>
                     users d' = users d))"
proof (cases bookId)
  case Malformed
  then show ?thesis using res by (auto simp: createExchangeRequest_def)
next
  case (ObjectId bid)
  show ?thesis
  proof (cases "findBookById (books d) bid")
    case None
    then show ?thesis using res ObjectId by (auto simp: createExchangeRequest_def)
  next
    case (Some bk)
    have i: "book_id bk = bid" using Some by (rule findBookById_id)
    have v: "validTransaction
               \<lparr> tx_id = newId, tx_book = bid, requester = u, tx_owner = book_owner bk,
                 tx_status = ''pending'', tx_terms = trms,
                 messages = (if truthy msg
                             then [\<lparr> sender = u, content = the msg, msg_createdAt = now,
                                     msg_read = False, notified = False \<rparr>]
                             else []),
                 lastModifiedBy = u \<rparr> = validTerms trms"
      by (cases msg) (auto simp: validTransaction_def TransactionStatus_enum_def)
    have f: "findBookById (saveBook (bk\<lparr> book_status := ''pending'' \<rparr>) (books d)) bid
               = Some (bk\<lparr> book_status := ''pending'' \<rparr>)"
      using Some i by (simp add: findBookById_saveBook)
    show ?thesis
      using res ObjectId Some v f
      by (auto simp: createExchangeRequest_def Let_def split: if_splits)
  qed
qed

theorem createExchangeRequest_succeeds_iff_witness:
  "isSuccess (fst (createExchangeRequest 7 20 db_listed 2 (ObjectId 10) mailTerms
                     (Some ''Is this still available?''))) \<and>
   (\<exists>t. transactions (snd (createExchangeRequest 7 20 db_listed 2 (ObjectId 10) mailTerms
                             (Some ''Is this still available?''))) = [t] \<and>
        tx_status t = ''pending'' \<and>
        messages t = [\<lparr> sender = 2, content = ''Is this still available?'', msg_createdAt = 7,
                        msg_read = False, notified = False \<rparr>]) \<and>
   findBookById
     (books (snd (createExchangeRequest 7 20 db_listed 2 (ObjectId 10) mailTerms
                    (Some ''Is this still available?'')))) 10
     = Some (dune\<lparr> book_status := ''pending'' \<rparr>)"
proof -
  have book: "findBookById (books db_listed) 10 = Some dune"
    by (simp add: example_defs findBookById_def)
  have ok: "book_status dune = ''available''" "book_owner dune \<noteq> 2"
    by (simp_all add: dune_def)
  have terms: "validTerms mailTerms"
    by (simp add: mailTerms_def validTerms_def deliveryMethod_enum_def)
  have none: "transactions db_listed = []"
    by (simp add: db_listed_def)
  from createExchangeRequest_succeeds_iff
         [OF surjective_pairing, of 7 20 db_listed 2 "ObjectId 10" mailTerms
            "Some ''Is this still available?''"]
       book ok terms none
  show ?thesis by auto
qed

section \<open>Claims on authentication\<close>

lemmas auth_defs =
  login_def forgotPassword_def resetPassword_def verifySecurityAnswers_def
  resetPasswordWithSecurityAnswers_def findUserByEmail_def findUserById_def answersMatch_def
  answerMatches_def otpMatches_def toLowerCase_def trim_def isWhiteSpace_def
  exampleHash_def exampleCompare_def exampleSign_def mailDown_def db_code_issued_def Let_def









lemma saveUser_mem:
  "x \<in> set us \<Longrightarrow> user_id x = user_id u \<Longrightarrow> u \<in> set (saveUser u us)"
  by (induction us) auto


lemma findUserByEmail_mem: "findUserByEmail us e = Some u \<Longrightarrow> u \<in> set us \<and> email u = e"
  by (auto simp: findUserByEmail_def find_Some_iff)




lemma findUserById_saveUser:
  "x \<in> set us \<Longrightarrow> user_id x = user_id u \<Longrightarrow> findUserById (saveUser u us) (user_id u) = Some u"
  unfolding findUserById_def by (induction us) auto

text \<open>
  The two handlers on security answers succeed exactly when the request is well formed,
  the email is known and each of the three answers, lower-cased and trimmed, matches the
  stored hash at its position.
\<close>

lemma answersMatch_three:
  "list_all (\<lambda>match. match) (answersMatch compare usr [a0, a1, a2]) =
     (answerMatches compare usr a0 0 \<and> answerMatches compare usr a1 1 \<and>
      answerMatches compare usr a2 2)"
proof -
  have "[0..<3] = [0, 1, 2]" by (simp add: upt_rec)
  then show ?thesis by (simp add: answersMatch_def eval_nat_numeral)
qed

lemma verifySecurityAnswers_success:
  "isSuccess (verifySecurityAnswers compare d eml [a0, a1, a2]) =
     (eml \<noteq> [] \<and>
      (\<exists>usr. findUserByEmail (users d) eml = Some usr \<and>
             answerMatches compare usr a0 0 \<and> answerMatches compare usr a1 1 \<and>
             answerMatches compare usr a2 2))"
  by (auto simp: verifySecurityAnswers_def answersMatch_three split: option.splits)

lemma verifySecurityAnswers_normalises:
  "verifySecurityAnswers exampleCompare db_listed ''a@x.com'' ['' Rex '', ''PUNE'', ''Blue'']
     = Success 200 ''Security answers verified successfully''"
  by (simp add: example_defs auth_defs upt_rec)

text \<open>
  C8, evaluated where it breaks. The answer to an unknown email and the answer to a known
  email with one wrong answer are different texts, in both handlers, so the answer tells
  whether the email is registered.
\<close>

theorem securityAnswers_error_not_uniform:
  "verifySecurityAnswers exampleCompare db_listed ''nobody@x.com'' [''rex'', ''pune'', ''blue'']
     = Failure 400 ''Invalid email or security answers'' \<and>
   verifySecurityAnswers exampleCompare db_listed ''a@x.com'' [''rex'', ''pune'', ''green'']
     = Failure 400 ''Invalid security answers'' \<and>
   fst (resetPasswordWithSecurityAnswers exampleHash ''salt'' exampleCompare db_listed
          ''nobody@x.com'' [''rex'', ''pune'', ''blue''] ''newSecret'')
     = Failure 400 ''Invalid email or security answers'' \<and>
   fst (resetPasswordWithSecurityAnswers exampleHash ''salt'' exampleCompare db_listed
          ''a@x.com'' [''rex'', ''pune'', ''green''] ''newSecret'')
     = Failure 400 ''Invalid security answers''"
  by (simp add: example_defs auth_defs upt_rec)


text \<open>A successful reset through the security answers changes the password of the user only.\<close>

lemma resetPasswordWithSecurityAnswers_success:
  assumes "isSuccess (fst (resetPasswordWithSecurityAnswers hash salt compare d eml answers newPassword))"
  shows "\<exists>usr. findUserByEmail (users d) eml = Some usr \<and>
           snd (resetPasswordWithSecurityAnswers hash salt compare d eml answers newPassword) =
             d\<lparr> users := saveUser (usr\<lparr> password := hash newPassword salt \<rparr>) (users d) \<rparr>"
proof (cases "findUserByEmail (users d) eml")
  case None
  then show ?thesis using assms
    by (simp add: resetPasswordWithSecurityAnswers_def split: if_splits)
next
  case (Some usr)
  then show ?thesis using assms
    by (simp add: resetPasswordWithSecurityAnswers_def Let_def split: if_splits)
qed

text \<open>A successful reset through the code clears the code.\<close>

lemma resetPassword_success:
  assumes "isSuccess (fst (resetPassword h s now d eml otp p))"
  shows "\<exists>u2. find (otpMatches now eml otp) (users d) = Some u2 \<and>
           snd (resetPassword h s now d eml otp p) =
             d\<lparr> users := saveUser
                        (u2\<lparr> password := h p s, resetPasswordToken := None,
                             resetPasswordExpires := None \<rparr>)
                        (users d) \<rparr>"
proof (cases "find (otpMatches now eml otp) (users d)")
  case None
  then show ?thesis using assms by (simp add: resetPassword_def)
next
  case (Some u2)
  then show ?thesis using assms by (simp add: resetPassword_def Let_def)
qed

lemma resetPassword_accepts:
  assumes "u \<in> set (users d)" and "otpMatches now eml otp u"
  shows "isSuccess (fst (resetPassword h s now d eml otp p))"
proof -
  have "find (otpMatches now eml otp) (users d) \<noteq> None"
    using assms by (auto simp: find_None_iff)
  then obtain u2 where "find (otpMatches now eml otp) (users d) = Some u2" by blast
  then show ?thesis by (simp add: resetPassword_def Let_def)
qed
text \<open>
  C10. A successful reset through the security answers stores the user with a new
  password hash and every other field as it was, the reset code and its expiry included,
  and changes no other user; so a code that matched before (at any time and for any new
  password) is still accepted by the reset through the code afterwards. The reset through
  the code, when it succeeds, stores the user with the new hash and both reset fields
  absent.
\<close>

theorem resetPasswordWithSecurityAnswers_keeps_code:
  assumes res: "resetPasswordWithSecurityAnswers hash salt compare d eml answers newPassword
                  = (r, d')"
    and success: "isSuccess r"
  shows "\<exists>usr. findUserByEmail (users d) eml = Some usr \<and>
           d' = d\<lparr> users := saveUser (usr\<lparr> password := hash newPassword salt \<rparr>) (users d) \<rparr> \<and>
           findUserById (users d') (user_id usr) = Some (usr\<lparr> password := hash newPassword salt \<rparr>) \<and>
           (\<forall>now' otp h s p. otpMatches now' eml otp usr
              \<longrightarrow> isSuccess (fst (resetPassword h s now' d' eml otp p))) \<and>
           (\<forall>now' otp h s p r2 d2.
              resetPassword h s now' d' eml otp p = (r2, d2) \<and> isSuccess r2
              \<longrightarrow> (\<exists>u2. find (otpMatches now' eml otp) (users d') = Some u2 \<and>
                        d2 = d'\<lparr> users := saveUser
                                   (u2\<lparr> password := h p s, resetPasswordToken := None,
                                        resetPasswordExpires := None \<rparr>)
                                   (users d') \<rparr>))"
proof -
  have r: "r = fst (resetPasswordWithSecurityAnswers hash salt compare d eml answers newPassword)"
    and d': "d' = snd (resetPasswordWithSecurityAnswers hash salt compare d eml answers newPassword)"
    using res by simp_all
  from resetPasswordWithSecurityAnswers_success [OF success [unfolded r]]
  obtain usr where
    found: "findUserByEmail (users d) eml = Some usr" and
    upd: "d' = d\<lparr> users := saveUser (usr\<lparr> password := hash newPassword salt \<rparr>) (users d) \<rparr>"
    unfolding d' by blast
  let ?new = "usr\<lparr> password := hash newPassword salt \<rparr>"
  have mem: "usr \<in> set (users d)" using found by (simp add: findUserByEmail_mem)
  have same_id: "user_id usr = user_id ?new" by simp
  have byId: "findUserById (users d') (user_id usr) = Some ?new"
    unfolding upd using findUserById_saveUser [OF mem same_id] by simp
  have new_mem: "?new \<in> set (users d')"
    unfolding upd using saveUser_mem [OF mem same_id] by simp
  have still: "\<forall>now' otp h s p. otpMatches now' eml otp usr
                 \<longrightarrow> isSuccess (fst (resetPassword h s now' d' eml otp p))"
  proof (intro allI impI)
    fix now' otp h s p
    assume "otpMatches now' eml otp usr"
    then have "otpMatches now' eml otp ?new" by (simp add: otpMatches_def)
    with new_mem show "isSuccess (fst (resetPassword h s now' d' eml otp p))"
      by (rule resetPassword_accepts)
  qed
  have clears: "\<forall>now' otp h s p r2 d2.
              resetPassword h s now' d' eml otp p = (r2, d2) \<and> isSuccess r2
              \<longrightarrow> (\<exists>u2. find (otpMatches now' eml otp) (users d') = Some u2 \<and>
                        d2 = d'\<lparr> users := saveUser
                                   (u2\<lparr> password := h p s, resetPasswordToken := None,
                                        resetPasswordExpires := None \<rparr>)
                                   (users d') \<rparr>)"
  proof (intro allI impI)
    fix now' otp h s p r2 d2
    assume a: "resetPassword h s now' d' eml otp p = (r2, d2) \<and> isSuccess r2"
    then have "isSuccess (fst (resetPassword h s now' d' eml otp p))" by simp
    from resetPassword_success [OF this] a
    show "\<exists>u2. find (otpMatches now' eml otp) (users d') = Some u2 \<and>
                        d2 = d'\<lparr> users := saveUser
                                   (u2\<lparr> password := h p s, resetPasswordToken := None,
                                        resetPasswordExpires := None \<rparr>)
                                   (users d') \<rparr>"
      by simp
  qed
  from found upd byId still clears show ?thesis by blast
qed

theorem resetPasswordWithSecurityAnswers_keeps_code_witness:
  "map resetPasswordToken
     (users (snd (resetPasswordWithSecurityAnswers exampleHash ''salt'' exampleCompare
                    db_code_issued ''a@x.com'' [''rex'', ''pune'', ''blue''] ''newSecret'')))
     = [Some ''123456'', None] \<and>
   isSuccess
     (fst (resetPassword exampleHash ''salt'' 4999
             (snd (resetPasswordWithSecurityAnswers exampleHash ''salt'' exampleCompare
                     db_code_issued ''a@x.com'' [''rex'', ''pune'', ''blue''] ''newSecret''))
             ''a@x.com'' ''123456'' ''other''))"
proof -
  let ?holder = "userA\<lparr> resetPasswordToken := Some ''123456'', resetPasswordExpires := Some 5000 \<rparr>"
  let ?d' = "snd (resetPasswordWithSecurityAnswers exampleHash ''salt'' exampleCompare
                    db_code_issued ''a@x.com'' [''rex'', ''pune'', ''blue''] ''newSecret'')"
  have s: "isSuccess
             (fst (resetPasswordWithSecurityAnswers exampleHash ''salt'' exampleCompare
                     db_code_issued ''a@x.com'' [''rex'', ''pune'', ''blue''] ''newSecret''))"
    by (simp add: example_defs auth_defs upt_rec)
  have known: "findUserByEmail (users db_code_issued) ''a@x.com'' = Some ?holder"
    by (simp add: example_defs auth_defs)
  have code: "otpMatches 4999 ''a@x.com'' ''123456'' ?holder"
    by (simp add: example_defs otpMatches_def)
  from resetPasswordWithSecurityAnswers_keeps_code [OF surjective_pairing s]
  obtain usr where
    f: "findUserByEmail (users db_code_issued) ''a@x.com'' = Some usr" and
    d': "?d' = db_code_issued\<lparr> users := saveUser (usr\<lparr> password := exampleHash ''newSecret'' ''salt'' \<rparr>)
                                            (users db_code_issued) \<rparr>" and
    still: "\<forall>now' otp h s p. otpMatches now' ''a@x.com'' otp usr
              \<longrightarrow> isSuccess (fst (resetPassword h s now' ?d' ''a@x.com'' otp p))"
    by blast
  have usr: "usr = ?holder" using f known by simp
  have a: "map resetPasswordToken (users ?d') = [Some ''123456'', None]"
    unfolding d' usr by (simp add: example_defs db_code_issued_def)
  have b: "isSuccess (fst (resetPassword exampleHash ''salt'' 4999 ?d' ''a@x.com'' ''123456'' ''other''))"
    using still code unfolding usr by blast
  from a b show ?thesis by blast
qed

section \<open>Sorting as Array.prototype.sort\<close>










section \<open>The page of getBooks\<close>









end
